theory Spec2Isabelle
  imports Complex_Main
begin

section \<open>The subscription adapter (fxn-solana-adapter.ts) as HOL functions\<close>

text \<open>
  The adapter class \<^verbatim>\<open>FxnSolanaAdapter\<close> talks to an on-chain program through an
  RPC client. Its methods are embedded as functions over a record that holds what the
  class reads from its surroundings: the program identifier, the connected wallet, the
  address-derivation primitive, the answers of the RPC client, and the readings of the
  system clock. Exceptions are values: a method that can throw returns a sum whose left
  side is the thrown value.
\<close>

subsection \<open>Thrown values and the error translator\<close>

text \<open>
  The \<^verbatim>\<open>code\<close> property of a thrown error: a number (program errors), or something
  else that is not \<^verbatim>\<open>undefined\<close> (a string such as a transport error's code).
\<close>

datatype js_code = CodeNumber int | CodeOther string

text \<open>
  What a \<^verbatim>\<open>catch\<close> block can receive (its parameter has type \<^verbatim>\<open>any\<close>):
  \<^item> \<open>ErrorInstance code message\<close>: an instance of \<^verbatim>\<open>Error\<close> with its \<^verbatim>\<open>code\<close>
    property (\<open>None\<close> for \<^verbatim>\<open>undefined\<close>) and its message;
  \<^item> \<open>OtherValue code message str\<close>: any other value that is not \<^verbatim>\<open>null\<close> or
    \<^verbatim>\<open>undefined\<close>, with its \<^verbatim>\<open>code\<close> and \<^verbatim>\<open>message\<close> properties (\<open>None\<close> for
    \<^verbatim>\<open>undefined\<close>) and the string \<open>str\<close> that \<^verbatim>\<open>String(value)\<close> yields. A thrown
    string \<open>s\<close> is \<open>OtherValue None None s\<close>; a plain object has
    \<open>str = ''[object Object]''\<close>;
  \<^item> \<open>Nullish\<close>: \<^verbatim>\<open>null\<close> or \<^verbatim>\<open>undefined\<close>;
  \<^item> \<open>TypeError\<close>: the \<^verbatim>\<open>TypeError\<close> that reading a property of \<^verbatim>\<open>null\<close> or
    \<^verbatim>\<open>undefined\<close> raises, an \<^verbatim>\<open>Error\<close> without a code.
\<close>

datatype thrown =
    ErrorInstance "js_code option" string
  | OtherValue "js_code option" "string option" string
  | Nullish
  | TypeError

text \<open>\<^verbatim>\<open>new Error(msg)\<close>: an \<^verbatim>\<open>Error\<close> with that message and no code.\<close>

definition newError :: "string \<Rightarrow> thrown" where
  "newError msg = ErrorInstance None msg"

text \<open>The enum \<^verbatim>\<open>SubscriptionErrorCode\<close>.\<close>

definition PeriodTooShort :: int where "PeriodTooShort = 6000"
definition AlreadySubscribed :: int where "AlreadySubscribed = 6001"
definition InsufficientPayment :: int where "InsufficientPayment = 6002"
definition InvalidNFTHolder :: int where "InvalidNFTHolder = 6003"
definition SubscriptionNotFound :: int where "SubscriptionNotFound = 6004"
definition QualityOutOfRange :: int where "QualityOutOfRange = 6005"
definition SubscriptionAlreadyEnded :: int where "SubscriptionAlreadyEnded = 6006"
definition ActiveSubscription :: int where "ActiveSubscription = 6007"
definition NotOwner :: int where "NotOwner = 6008"

text \<open>
  The \<^verbatim>\<open>switch\<close> of \<^verbatim>\<open>handleError\<close> on a code that is not \<^verbatim>\<open>undefined\<close>, with
  the text that \<^verbatim>\<open>${error.message}\<close> renders. The cases compare with strict
  equality, so only a numeric code can match; every other code falls to
  \<^verbatim>\<open>default\<close>.
\<close>

definition handleError_switch :: "js_code \<Rightarrow> string \<Rightarrow> thrown" where
  "handleError_switch c msg =
     (if c = CodeNumber PeriodTooShort then newError ''Subscription period is too short''
      else if c = CodeNumber AlreadySubscribed then newError ''Already subscribed''
      else if c = CodeNumber InsufficientPayment then newError ''Insufficient payment''
      else if c = CodeNumber InvalidNFTHolder then newError ''Invalid NFT holder''
      else if c = CodeNumber SubscriptionNotFound then newError ''Subscription not found''
      else if c = CodeNumber QualityOutOfRange
        then newError ''Quality score must be between 0 and 100''
      else if c = CodeNumber SubscriptionAlreadyEnded
        then newError ''Subscription has already ended''
      else if c = CodeNumber ActiveSubscription then newError ''Subscription is still active''
      else if c = CodeNumber NotOwner then newError ''Not the contract owner''
      else newError (''Unknown error: '' @ msg))"

text \<open>
  \<^verbatim>\<open>handleError\<close>: \<open>Inr\<close> the error it returns, \<open>Inl\<close> what it throws itself. Its
  first step reads \<^verbatim>\<open>error.code\<close>, which raises a \<^verbatim>\<open>TypeError\<close> on \<^verbatim>\<open>null\<close> and
  \<^verbatim>\<open>undefined\<close>. A missing \<^verbatim>\<open>message\<close> renders as \<open>undefined\<close> in the template.
  Without a code, an \<^verbatim>\<open>Error\<close> is returned as it is and any other value becomes
  \<^verbatim>\<open>new Error(String(error))\<close>.
\<close>

fun handleError :: "thrown \<Rightarrow> thrown + thrown" where
  "handleError Nullish = Inl TypeError"
| "handleError (ErrorInstance (Some c) msg) = Inr (handleError_switch c msg)"
| "handleError (OtherValue (Some c) m str) =
     Inr (handleError_switch c (case m of None \<Rightarrow> ''undefined'' | Some msg \<Rightarrow> msg))"
| "handleError (ErrorInstance None msg) = Inr (ErrorInstance None msg)"
| "handleError TypeError = Inr TypeError"
| "handleError (OtherValue None m str) = Inr (newError str)"

text \<open>
  What \<^verbatim>\<open>throw this.handleError(error)\<close> throws: the error that \<^verbatim>\<open>handleError\<close>
  returns, or what \<^verbatim>\<open>handleError\<close> itself throws.
\<close>

definition throw_handleError :: "thrown \<Rightarrow> thrown" where
  "throw_handleError error =
     (case handleError error of Inl raised \<Rightarrow> raised | Inr translated \<Rightarrow> translated)"

subsection \<open>Numbers and big numbers\<close>

text \<open>
  The numeric parameters (\<^verbatim>\<open>durationInDays\<close>, \<^verbatim>\<open>newEndTime\<close>, \<^verbatim>\<open>qualityScore\<close>) and
  the clock are whole numbers, modelled by \<open>int\<close>; a \<^verbatim>\<open>BN\<close> is the integer it holds.
  The library converts between the two only below \<open>2 ^ 53\<close> in magnitude:
  \<^verbatim>\<open>new BN(number)\<close> fails its assertion from there on, and \<^verbatim>\<open>toNumber()\<close> refuses a
  value of more than 53 bits. Both throw an \<^verbatim>\<open>Error\<close> without a code.
\<close>

definition newBN :: "int \<Rightarrow> thrown + int" where
  "newBN number =
     (if \<bar>number\<bar> < 2 ^ 53 then Inr number else Inl (newError ''Assertion failed''))"

definition toNumber :: "int \<Rightarrow> thrown + int" where
  "toNumber bn =
     (if \<bar>bn\<bar> < 2 ^ 53 then Inr bn
      else Inl (newError ''Number can only safely store up to 53 bits''))"

subsection \<open>The status classifier\<close>

datatype subscription_status = Active | Expired | ExpiringSoon

text \<open>\<^verbatim>\<open>Math.floor(Date.now() / 1000)\<close>, from a clock reading in milliseconds.\<close>

definition unixNow :: "int \<Rightarrow> int" where
  "unixNow dateNow = dateNow div 1000"

text \<open>
  \<^verbatim>\<open>getSubscriptionStatus\<close>, with the reading of \<^verbatim>\<open>Date.now()\<close> as first argument.
  The method has no \<^verbatim>\<open>try\<close>: what \<^verbatim>\<open>endTime.toNumber()\<close> throws reaches the caller.
  The quotient \<^verbatim>\<open>daysUntilExpiration\<close> is a fraction, not an integer division.
\<close>

definition getSubscriptionStatus :: "int \<Rightarrow> int \<Rightarrow> thrown + subscription_status" where
  "getSubscriptionStatus dateNow endTime =
     (let now = unixNow dateNow in
      case toNumber endTime of
        Inl error \<Rightarrow> Inl error
      | Inr endTimeSeconds \<Rightarrow>
          let daysUntilExpiration = real_of_int (endTimeSeconds - now) / (24 * 60 * 60)
          in if endTimeSeconds \<le> now then Inr Expired
             else if daysUntilExpiration \<le> 7 then Inr ExpiringSoon
             else Inr Active)"

subsection \<open>Accounts, addresses and the RPC client\<close>

text \<open>A public key is the byte string that \<^verbatim>\<open>toBuffer()\<close> yields.\<close>

type_synonym pubkey = string

record state_account =
  owner :: pubkey

record subscription_account =
  endTime :: int
  recipient :: string

record subscribers_list =
  subscribers :: "pubkey list"

text \<open>An entry of \<^verbatim>\<open>program.account.subscription.all()\<close>.\<close>

record program_account =
  publicKey :: pubkey
  account :: subscription_account

text \<open>
  A transition built by \<^verbatim>\<open>program.methods.<method>(args).accounts({...})\<close>: the
  method's name, its arguments and the account bindings in the order of the object
  literal.
\<close>

datatype arg = ArgString string | ArgBN int | ArgNumber int

datatype transition = Transition (methodName: string) (args: "arg list") (accounts: "(string \<times> pubkey) list")

text \<open>
  A request sent to the RPC client: the fetch of one account of a kind, or a submitted
  transition (\<^verbatim>\<open>.rpc()\<close>). The mutating operations return the requests they sent, in
  order, beside their result.
\<close>

datatype call = Fetch string pubkey | Rpc transition

text \<open>
  What an adapter instance reads from outside the class. \<open>findProgramAddressSync\<close> is
  the library's derivation primitive (seeds and program identifier to address). The
  \<open>fetch\<close> fields and \<open>rpc\<close> give the client's answer to a request, \<open>Inl\<close> for a
  rejected promise. \<open>dateNow k\<close> is the \<open>k\<close>-th reading of \<^verbatim>\<open>Date.now()\<close> within
  one operation, in milliseconds. A reading is at most \<open>8.64e15\<close> in magnitude (the
  range of a date), so its seconds are far below \<open>2 ^ 53\<close> and
  \<^verbatim>\<open>new BN(Math.floor(Date.now() / 1000))\<close> does not fail.
\<close>

record adapter =
  programId :: pubkey
  walletPublicKey :: "pubkey option"
  findProgramAddressSync :: "string list \<Rightarrow> pubkey \<Rightarrow> pubkey"
  SystemProgram_programId :: pubkey
  TOKEN_PROGRAM_ID :: pubkey
  account_state_fetch :: "pubkey \<Rightarrow> thrown + state_account"
  account_qualityInfo_fetch :: "pubkey \<Rightarrow> thrown + unit"
  account_subscription_fetch :: "pubkey \<Rightarrow> thrown + subscription_account"
  account_subscribersList_fetch :: "pubkey \<Rightarrow> thrown + subscribers_list"
  account_subscription_all :: "thrown + program_account list"
  rpc :: "transition \<Rightarrow> thrown + string"
  dateNow :: "nat \<Rightarrow> int"

subsection \<open>Address derivation\<close>

record program_addresses =
  statePDA :: pubkey
  qualityPDA :: pubkey
  subscriptionPDA :: pubkey
  subscribersListPDA :: pubkey

definition getProgramAddresses :: "adapter \<Rightarrow> pubkey \<Rightarrow> pubkey \<Rightarrow> program_addresses" where
  "getProgramAddresses a dataProvider subscriber =
     \<lparr> statePDA = findProgramAddressSync a [''storage''] (programId a),
       qualityPDA = findProgramAddressSync a [''quality'', dataProvider] (programId a),
       subscriptionPDA =
         findProgramAddressSync a [''subscription'', subscriber, dataProvider] (programId a),
       subscribersListPDA =
         findProgramAddressSync a [''subscribers'', dataProvider] (programId a) \<rparr>"

subsection \<open>createSubscription\<close>



subsection \<open>renewSubscription\<close>

definition initializeQualityInfo_transition ::
  "adapter \<Rightarrow> pubkey \<Rightarrow> pubkey \<Rightarrow> program_addresses \<Rightarrow> transition" where
  "initializeQualityInfo_transition a dataProvider subscriber pdas =
     Transition ''initializeQualityInfo'' []
       [(''qualityInfo'', qualityPDA pdas),
        (''dataProvider'', dataProvider),
        (''payer'', subscriber),
        (''systemProgram'', SystemProgram_programId a)]"

definition renewSubscription_transition ::
  "adapter \<Rightarrow> pubkey \<Rightarrow> string \<Rightarrow> int \<Rightarrow> int \<Rightarrow> pubkey \<Rightarrow> pubkey \<Rightarrow> program_addresses \<Rightarrow>
   state_account \<Rightarrow> transition" where
  "renewSubscription_transition a dataProvider newRecipient endTimeBN qualityScore
      nftTokenAccount subscriber pdas state =
     Transition ''renewSubscription''
       [ArgString newRecipient, ArgBN endTimeBN, ArgNumber qualityScore]
       [(''state'', statePDA pdas),
        (''subscriber'', subscriber),
        (''dataProvider'', dataProvider),
        (''subscription'', subscriptionPDA pdas),
        (''qualityInfo'', qualityPDA pdas),
        (''owner'', owner state),
        (''systemProgram'', SystemProgram_programId a),
        (''tokenProgram'', TOKEN_PROGRAM_ID a),
        (''nftTokenAccount'', nftTokenAccount)]"

text \<open>
  The part of \<^verbatim>\<open>renewSubscription\<close> after the inner \<^verbatim>\<open>try\<close>: fetch the state
  account, turn the new end time into a \<^verbatim>\<open>BN\<close>, then submit the renewal. \<open>sent\<close>
  holds the requests sent so far.
\<close>

definition renew_after_quality ::
  "adapter \<Rightarrow> pubkey \<Rightarrow> string \<Rightarrow> int \<Rightarrow> int \<Rightarrow> pubkey \<Rightarrow> pubkey \<Rightarrow> program_addresses \<Rightarrow>
   call list \<Rightarrow> call list \<times> (thrown + string)" where
  "renew_after_quality a dataProvider newRecipient newEndTime qualityScore nftTokenAccount
      subscriber pdas sent =
     (case account_state_fetch a (statePDA pdas) of
        Inl error \<Rightarrow>
          (sent @ [Fetch ''state'' (statePDA pdas)], Inl (throw_handleError error))
      | Inr state \<Rightarrow>
          (case newBN newEndTime of
             Inl error \<Rightarrow>
               (sent @ [Fetch ''state'' (statePDA pdas)], Inl (throw_handleError error))
           | Inr endTimeBN \<Rightarrow>
               let tx = renewSubscription_transition a dataProvider newRecipient endTimeBN
                          qualityScore nftTokenAccount subscriber pdas state in
               (case rpc a tx of
                  Inl error \<Rightarrow>
                    (sent @ [Fetch ''state'' (statePDA pdas), Rpc tx],
                     Inl (throw_handleError error))
                | Inr txHash \<Rightarrow>
                    (sent @ [Fetch ''state'' (statePDA pdas), Rpc tx], Inr txHash))))"

text \<open>
  \<^verbatim>\<open>renewSubscription(params)\<close>. The inner \<^verbatim>\<open>try\<close> covers only the fetch of the
  quality record; its \<^verbatim>\<open>catch\<close> submits the initialisation, and a rejection of that
  submission reaches the outer \<^verbatim>\<open>catch\<close>, which throws its translation.
\<close>

definition renewSubscription ::
  "adapter \<Rightarrow> pubkey \<Rightarrow> string \<Rightarrow> int \<Rightarrow> int \<Rightarrow> pubkey \<Rightarrow> call list \<times> (thrown + string)" where
  "renewSubscription a dataProvider newRecipient newEndTime qualityScore nftTokenAccount =
     (case walletPublicKey a of
        None \<Rightarrow> ([], Inl (newError ''Wallet not connected''))
      | Some subscriber \<Rightarrow>
          let pdas = getProgramAddresses a dataProvider subscriber in
          (case account_qualityInfo_fetch a (qualityPDA pdas) of
             Inr _ \<Rightarrow>
               renew_after_quality a dataProvider newRecipient newEndTime qualityScore
                 nftTokenAccount subscriber pdas [Fetch ''qualityInfo'' (qualityPDA pdas)]
           | Inl e \<Rightarrow>
               let init = initializeQualityInfo_transition a dataProvider subscriber pdas in
               (case rpc a init of
                  Inl error \<Rightarrow>
                    ([Fetch ''qualityInfo'' (qualityPDA pdas), Rpc init],
                     Inl (throw_handleError error))
                | Inr _ \<Rightarrow>
                    renew_after_quality a dataProvider newRecipient newEndTime qualityScore
                      nftTokenAccount subscriber pdas
                      [Fetch ''qualityInfo'' (qualityPDA pdas), Rpc init])))"

subsection \<open>Queries\<close>

text \<open>
  \<^verbatim>\<open>getAgentSubscribers\<close>. The inner \<^verbatim>\<open>catch\<close> answers every failed fetch with the
  empty array.
\<close>

definition getAgentSubscribers :: "adapter \<Rightarrow> pubkey \<Rightarrow> thrown + pubkey list" where
  "getAgentSubscribers a agentAddress =
     (let subscribersListPDA' =
            findProgramAddressSync a [''subscribers'', agentAddress] (programId a)
      in case account_subscribersList_fetch a subscribersListPDA' of
           Inr subscribersList \<Rightarrow> Inr (subscribers subscribersList)
         | Inl error \<Rightarrow> Inr [])"

text \<open>
  The \<^verbatim>\<open>for\<close> loop of \<^verbatim>\<open>getActiveSubscriptionsForAgent\<close> over the subscribers left,
  with the number \<open>k\<close> of clock readings made so far and the counter. The clock is read
  only after a fetch has succeeded.
\<close>

fun activeCount_loop :: "adapter \<Rightarrow> pubkey \<Rightarrow> pubkey list \<Rightarrow> nat \<Rightarrow> nat \<Rightarrow> nat" where
  "activeCount_loop a agentAddress [] k activeCount = activeCount"
| "activeCount_loop a agentAddress (subscriber # rest) k activeCount =
     (let subscriptionPDA' =
            findProgramAddressSync a [''subscription'', subscriber, agentAddress] (programId a)
      in case account_subscription_fetch a subscriptionPDA' of
           Inl error \<Rightarrow> activeCount_loop a agentAddress rest k activeCount
         | Inr sub \<Rightarrow>
             if endTime sub > unixNow (dateNow a k)
             then activeCount_loop a agentAddress rest (Suc k) (activeCount + 1)
             else activeCount_loop a agentAddress rest (Suc k) activeCount)"

definition getActiveSubscriptionsForAgent :: "adapter \<Rightarrow> pubkey \<Rightarrow> thrown + nat" where
  "getActiveSubscriptionsForAgent a agentAddress =
     (case getAgentSubscribers a agentAddress of
        Inl error \<Rightarrow> Inl (throw_handleError error)
      | Inr subscribers' \<Rightarrow> Inr (activeCount_loop a agentAddress subscribers' 0 0))"

text \<open>
  An element of the array that \<^verbatim>\<open>getAllSubscriptionsForUser\<close> returns; the field
  \<open>subscriptionAddress\<close> is \<^verbatim>\<open>subscriptionPDA\<close> in the source.
\<close>

record SubscriptionStatus =
  subscription :: subscription_account
  subscriptionAddress :: pubkey
  status :: subscription_status

text \<open>
  The \<^verbatim>\<open>filter\<close> and \<^verbatim>\<open>map\<close> callbacks of \<^verbatim>\<open>getAllSubscriptionsForUser\<close>; each
  call of a callback reads the clock once, \<open>k\<close> counts the readings made before it.
  The \<^verbatim>\<open>map\<close> stops at the first element whose classification throws.
\<close>

fun filter_callback :: "adapter \<Rightarrow> nat \<Rightarrow> program_account list \<Rightarrow> program_account list" where
  "filter_callback a k [] = []"
| "filter_callback a k (acc # rest) =
     (if endTime (account acc) > unixNow (dateNow a k)
      then acc # filter_callback a (Suc k) rest
      else filter_callback a (Suc k) rest)"

fun map_callback ::
  "adapter \<Rightarrow> nat \<Rightarrow> program_account list \<Rightarrow> thrown + SubscriptionStatus list" where
  "map_callback a k [] = Inr []"
| "map_callback a k (acc # rest) =
     (case getSubscriptionStatus (dateNow a k) (endTime (account acc)) of
        Inl error \<Rightarrow> Inl error
      | Inr st \<Rightarrow>
          (case map_callback a (Suc k) rest of
             Inl error \<Rightarrow> Inl error
           | Inr mapped \<Rightarrow>
               Inr (\<lparr> subscription = account acc,
                      subscriptionAddress = publicKey acc,
                      status = st \<rparr> # mapped)))"

definition getAllSubscriptionsForUser ::
  "adapter \<Rightarrow> pubkey \<Rightarrow> thrown + SubscriptionStatus list" where
  "getAllSubscriptionsForUser a userPublicKey =
     (case account_subscription_all a of
        Inl error \<Rightarrow> Inl (throw_handleError error)
      | Inr subscriptionAccounts \<Rightarrow>
          (case map_callback a (length subscriptionAccounts)
                  (filter_callback a 0 subscriptionAccounts) of
             Inl error \<Rightarrow> Inl (throw_handleError error)
           | Inr userSubscriptions \<Rightarrow> Inr userSubscriptions))"

subsection \<open>Reading a trace\<close>

text \<open>The names of the transitions submitted in a trace, in order.\<close>

fun submitted :: "call list \<Rightarrow> string list" where
  "submitted [] = []"
| "submitted (Fetch kind address # cs) = submitted cs"
| "submitted (Rpc tx # cs) = methodName tx # submitted cs"

subsection \<open>An example deployment\<close>

text \<open>
  A concrete adapter on which the functions above can be evaluated. Addresses are
  derived by joining the program identifier and the seeds with slashes, so different
  seeds give different addresses. The wallet is \<open>alice\<close>; the state account exists and
  names \<open>admin\<close> as owner; no quality record can be fetched; the provider
  \<open>provider\<close> lists three subscribers, of which \<open>bob\<close> has no subscription record;
  the client rejects the initialisation of the quality record with the system error
  "account already in use" and accepts every other transition; the clock stands at
  1000 seconds.
\<close>

definition example_derive :: "string list \<Rightarrow> pubkey \<Rightarrow> pubkey" where
  "example_derive seeds pid = pid @ concat (map (\<lambda>s. CHR ''/'' # s) seeds)"

definition example_adapter :: adapter where
  "example_adapter =
     \<lparr> programId = ''prog'',
       walletPublicKey = Some ''alice'',
       findProgramAddressSync = example_derive,
       SystemProgram_programId = ''system'',
       TOKEN_PROGRAM_ID = ''token'',
       account_state_fetch = (\<lambda>address.
         if address = ''prog/storage'' then Inr \<lparr> owner = ''admin'' \<rparr>
         else Inl (newError ''Account does not exist'')),
       account_qualityInfo_fetch = (\<lambda>address. Inl (newError ''Account does not exist'')),
       account_subscription_fetch = (\<lambda>address.
         if address = ''prog/subscription/alice/provider''
           then Inr \<lparr> endTime = 2000, recipient = ''a'' \<rparr>
         else if address = ''prog/subscription/carol/provider''
           then Inr \<lparr> endTime = 1000, recipient = ''c'' \<rparr>
         else if address = ''prog/subscription/dave/provider''
           then Inr \<lparr> endTime = 700000, recipient = ''d'' \<rparr>
         else Inl (newError ''Account does not exist'')),
       account_subscribersList_fetch = (\<lambda>address.
         if address = ''prog/subscribers/provider''
           then Inr \<lparr> subscribers = [''alice'', ''bob'', ''dave''] \<rparr>
         else Inl (newError ''Account does not exist'')),
       account_subscription_all =
         Inr [\<lparr> publicKey = ''prog/subscription/alice/provider'',
                account = \<lparr> endTime = 2000, recipient = ''a'' \<rparr> \<rparr>,
              \<lparr> publicKey = ''prog/subscription/carol/provider'',
                account = \<lparr> endTime = 1000, recipient = ''c'' \<rparr> \<rparr>,
              \<lparr> publicKey = ''prog/subscription/dave/provider'',
                account = \<lparr> endTime = 700000, recipient = ''d'' \<rparr> \<rparr>],
       rpc = (\<lambda>tx.
         if methodName tx = ''initializeQualityInfo''
           then Inl (ErrorInstance (Some (CodeNumber 0)) ''account already in use'')
         else Inr ''signature''),
       dateNow = (\<lambda>k. 1000999) \<rparr>"

text \<open>
  The same deployment with a clock that advances during an operation, from second 1000
  at the first reading to second 2000 afterwards, and with the subscriptions of
  \<open>alice\<close> and \<open>dave\<close> both ending at second 1500.
\<close>

definition advancing_adapter :: adapter where
  "advancing_adapter =
     example_adapter
       \<lparr> account_subscription_fetch := (\<lambda>address.
           if address = ''prog/subscription/alice/provider''
             then Inr \<lparr> endTime = 1500, recipient = ''a'' \<rparr>
           else if address = ''prog/subscription/dave/provider''
             then Inr \<lparr> endTime = 1500, recipient = ''d'' \<rparr>
           else Inl (newError ''Account does not exist'')),
         dateNow := (\<lambda>k. if k = 0 then 1000999 else 2000999) \<rparr>"

section \<open>Properties\<close>

subsection \<open>Facts used for evaluation\<close>

lemmas error_codes =
  PeriodTooShort_def AlreadySubscribed_def InsufficientPayment_def
  InvalidNFTHolder_def SubscriptionNotFound_def QualityOutOfRange_def
  SubscriptionAlreadyEnded_def ActiveSubscription_def NotOwner_def

lemmas example_defs =
  example_adapter_def example_derive_def getProgramAddresses_def

subsection \<open>The status classifier\<close>

lemma days_le_7: "real_of_int d / (24 * 60 * 60) \<le> 7 \<longleftrightarrow> d \<le> 604800"
proof -
  have "real_of_int d / (24 * 60 * 60) \<le> 7 \<longleftrightarrow> real_of_int d \<le> 604800"
    by (simp add: field_simps)
  also have "\<dots> \<longleftrightarrow> d \<le> 604800"
    by linarith
  finally show ?thesis .
qed

lemma getSubscriptionStatus_safe:
  assumes "\<bar>t\<bar> < 2 ^ 53"
  shows "getSubscriptionStatus ms t =
           Inr (if t \<le> unixNow ms then Expired
                else if t - unixNow ms \<le> 604800 then ExpiringSoon else Active)"
  using assms by (simp add: getSubscriptionStatus_def toNumber_def Let_def days_le_7)

text \<open>
  C2, as the code has it. For every end time below \<open>2 ^ 53\<close> in magnitude and every
  clock reading, with \<open>now\<close> the clock's Unix seconds: the classifier answers expired
  exactly when \<open>endTime \<le> now\<close>, expiring soon exactly when
  \<open>0 < endTime - now \<le> 604800\<close>, and active exactly when \<open>endTime - now > 604800\<close>;
  so \<open>now + 604800\<close> is expiring soon and \<open>now + 604801\<close> is active. For an end time
  of \<open>2 ^ 53\<close> or more in magnitude the conversion to a number throws and the
  classifier returns no status.
\<close>

theorem getSubscriptionStatus_classifies:
  "(\<bar>t\<bar> < 2 ^ 53 \<longrightarrow>
      (getSubscriptionStatus ms t = Inr Expired \<longleftrightarrow> t \<le> unixNow ms) \<and>
      (getSubscriptionStatus ms t = Inr ExpiringSoon \<longleftrightarrow>
         0 < t - unixNow ms \<and> t - unixNow ms \<le> 604800) \<and>
      (getSubscriptionStatus ms t = Inr Active \<longleftrightarrow> t - unixNow ms > 604800)) \<and>
   (\<bar>unixNow ms + 604800\<bar> < 2 ^ 53 \<longrightarrow>
      getSubscriptionStatus ms (unixNow ms + 604800) = Inr ExpiringSoon) \<and>
   (\<bar>unixNow ms + 604801\<bar> < 2 ^ 53 \<longrightarrow>
      getSubscriptionStatus ms (unixNow ms + 604801) = Inr Active) \<and>
   (2 ^ 53 \<le> \<bar>t\<bar> \<longrightarrow>
      getSubscriptionStatus ms t =
        Inl (newError ''Number can only safely store up to 53 bits''))"
proof -
  have unsafe: "getSubscriptionStatus ms t =
      Inl (newError ''Number can only safely store up to 53 bits'')" if "2 ^ 53 \<le> \<bar>t\<bar>"
    using that by (simp add: getSubscriptionStatus_def toNumber_def)
  show ?thesis
    using unsafe by (auto simp add: getSubscriptionStatus_safe)
qed

text \<open>
  C2 as stated fails: at the end time \<open>2 ^ 53\<close>, more than 604800 seconds after second
  1000, the classifier throws instead of answering active.
\<close>

theorem getSubscriptionStatus_unsafe_counterexample:
  "getSubscriptionStatus 1000999 9007199254740992 =
     Inl (newError ''Number can only safely store up to 53 bits'') \<and>
   getSubscriptionStatus 1000999 9007199254740992 \<noteq> Inr Active \<and>
   9007199254740992 - unixNow 1000999 > 604800"
  by (simp add: getSubscriptionStatus_def toNumber_def unixNow_def)

text \<open>Second 1000: end times 2000, 1000 and the two boundaries 605800 and 605801.\<close>

theorem getSubscriptionStatus_classifies_witness:
  "\<bar>2000 :: int\<bar> < 2 ^ 53 \<and> unixNow 1000999 = 1000 \<and>
   getSubscriptionStatus 1000999 2000 = Inr ExpiringSoon \<and>
   getSubscriptionStatus 1000999 1000 = Inr Expired \<and>
   getSubscriptionStatus 1000999 605800 = Inr ExpiringSoon \<and>
   getSubscriptionStatus 1000999 605801 = Inr Active"
proof -
  have n: "unixNow 1000999 = 1000"
    by (simp add: unixNow_def)
  have b: "\<bar>2000 :: int\<bar> < 2 ^ 53" "\<bar>1000 :: int\<bar> < 2 ^ 53"
      "\<bar>unixNow 1000999 + 604800\<bar> < 2 ^ 53" "\<bar>unixNow 1000999 + 604801\<bar> < 2 ^ 53"
    by (simp_all add: n)
  show ?thesis
    using n b getSubscriptionStatus_classifies [of 2000 1000999]
      getSubscriptionStatus_classifies [of 1000 1000999]
    by simp
qed

subsection \<open>The error translator\<close>

lemma handleError_returns:
  assumes "e \<noteq> Nullish"
  shows "\<exists>msg. handleError e = Inr (newError msg) \<or> handleError e = Inr TypeError"
  using assms
  by (cases e rule: handleError.cases)
    (auto simp add: newError_def handleError_switch_def)

text \<open>
  C3, as the code has it. For every thrown value other than \<^verbatim>\<open>null\<close> and
  \<^verbatim>\<open>undefined\<close> the error translator returns an error and does not throw: for each
  of the nine codes 6000 to 6008 the error with the message of that kind; for every
  other code the error "Unknown error: " followed by the original message (a value that
  is not an \<^verbatim>\<open>Error\<close> is treated alike, a missing message rendering as "undefined");
  an \<^verbatim>\<open>Error\<close> without a code is returned as it is, message included; any other value
  without a code becomes an error whose message is \<^verbatim>\<open>String(value)\<close>, which is the
  text of a thrown string but not the message property of an object.
\<close>

theorem handleError_translates:
  "handleError (ErrorInstance (Some (CodeNumber 6000)) m) =
     Inr (newError ''Subscription period is too short'') \<and>
   handleError (ErrorInstance (Some (CodeNumber 6001)) m) = Inr (newError ''Already subscribed'') \<and>
   handleError (ErrorInstance (Some (CodeNumber 6002)) m) =
     Inr (newError ''Insufficient payment'') \<and>
   handleError (ErrorInstance (Some (CodeNumber 6003)) m) = Inr (newError ''Invalid NFT holder'') \<and>
   handleError (ErrorInstance (Some (CodeNumber 6004)) m) =
     Inr (newError ''Subscription not found'') \<and>
   handleError (ErrorInstance (Some (CodeNumber 6005)) m) =
     Inr (newError ''Quality score must be between 0 and 100'') \<and>
   handleError (ErrorInstance (Some (CodeNumber 6006)) m) =
     Inr (newError ''Subscription has already ended'') \<and>
   handleError (ErrorInstance (Some (CodeNumber 6007)) m) =
     Inr (newError ''Subscription is still active'') \<and>
   handleError (ErrorInstance (Some (CodeNumber 6008)) m) =
     Inr (newError ''Not the contract owner'') \<and>
   (c \<notin> CodeNumber ` {6000..6008} \<longrightarrow>
      handleError (ErrorInstance (Some c) m) = Inr (newError (''Unknown error: '' @ m))) \<and>
   handleError (ErrorInstance None m) = Inr (ErrorInstance None m) \<and>
   handleError (OtherValue (Some c) (Some m) str) = handleError (ErrorInstance (Some c) m) \<and>
   handleError (OtherValue (Some c) None str) =
     handleError (ErrorInstance (Some c) ''undefined'') \<and>
   handleError (OtherValue None p str) = Inr (newError str) \<and>
   (e \<noteq> Nullish \<longrightarrow> (\<exists>r. handleError e = Inr r))"
proof -
  have total: "e \<noteq> Nullish \<longrightarrow> (\<exists>r. handleError e = Inr r)"
    using handleError_returns [of e] by auto
  show ?thesis
    using total by (simp add: handleError_switch_def error_codes)
qed

text \<open>
  C3 as stated fails: on \<^verbatim>\<open>null\<close> or \<^verbatim>\<open>undefined\<close> the translator throws a
  \<^verbatim>\<open>TypeError\<close>, and a plain object without a code whose message is "boom" becomes
  an error with the message "[object Object]".
\<close>

theorem handleError_nullish_counterexample:
  "handleError Nullish = Inl TypeError \<and>
   handleError (OtherValue None (Some ''boom'') ''[object Object]'') =
     Inr (newError ''[object Object]'')"
  by simp

text \<open>Two codes outside the known nine, one numeric and one not, and a thrown string.\<close>

theorem handleError_translates_witness:
  "CodeNumber 7000 \<notin> CodeNumber ` {6000..6008} \<and>
   CodeOther ''ECONNREFUSED'' \<notin> CodeNumber ` {6000..6008} \<and>
   handleError (ErrorInstance (Some (CodeNumber 7000)) ''boom'') =
     Inr (newError ''Unknown error: boom'') \<and>
   handleError (ErrorInstance (Some (CodeOther ''ECONNREFUSED'')) ''refused'') =
     Inr (newError ''Unknown error: refused'') \<and>
   OtherValue None None ''boom'' \<noteq> Nullish \<and>
   handleError (OtherValue None None ''boom'') = Inr (newError ''boom'')"
proof -
  have h1: "CodeNumber 7000 \<notin> CodeNumber ` {6000..6008}" by auto
  have h2: "CodeOther ''ECONNREFUSED'' \<notin> CodeNumber ` {6000..6008}" by auto
  show ?thesis
    using h1 h2
      handleError_translates [of "''boom''" "CodeNumber 7000" _ _ "OtherValue None None ''boom''"]
      handleError_translates [of "''refused''" "CodeOther ''ECONNREFUSED''"]
    by simp
qed

subsection \<open>Renewal when the initialisation is rejected\<close>

text \<open>
  C1, as the code has it. When the wallet is connected, the fetch of the quality record
  fails and the client rejects the initialisation with any error, "already exists"
  included, \<^verbatim>\<open>renewSubscription\<close> fails with the translation of that error, and the
  only transition submitted is the initialisation: the renewal is not attempted.
\<close>

theorem renewSubscription_initialize_failure:
  assumes "walletPublicKey a = Some subscriber"
    and "pdas = getProgramAddresses a dataProvider subscriber"
    and "init = initializeQualityInfo_transition a dataProvider subscriber pdas"
    and "account_qualityInfo_fetch a (qualityPDA pdas) = Inl e"
    and "rpc a init = Inl err"
  shows "renewSubscription a dataProvider newRecipient newEndTime qualityScore nftTokenAccount =
           ([Fetch ''qualityInfo'' (qualityPDA pdas), Rpc init], Inl (throw_handleError err)) \<and>
         submitted (fst (renewSubscription a dataProvider newRecipient newEndTime qualityScore
           nftTokenAccount)) = [''initializeQualityInfo'']"
  using assms
  by (simp add: renewSubscription_def Let_def initializeQualityInfo_transition_def)

text \<open>
  C1 as stated fails: in the example deployment the initialisation is rejected with
  "account already in use"; the operation fails with that error, translated, and no
  renewal is submitted.
\<close>

theorem renewSubscription_already_exists_counterexample:
  "renewSubscription example_adapter ''provider'' ''r'' 5000 80 ''nft'' =
     ([Fetch ''qualityInfo'' ''prog/quality/provider'',
       Rpc (Transition ''initializeQualityInfo'' []
         [(''qualityInfo'', ''prog/quality/provider''), (''dataProvider'', ''provider''),
          (''payer'', ''alice''), (''systemProgram'', ''system'')])],
      Inl (newError ''Unknown error: account already in use'')) \<and>
   ''renewSubscription'' \<notin> set (submitted (fst
      (renewSubscription example_adapter ''provider'' ''r'' 5000 80 ''nft'')))"
  by (simp add: renewSubscription_def example_defs throw_handleError_def handleError_switch_def
      initializeQualityInfo_transition_def newError_def error_codes)

text \<open>The example deployment meets the hypotheses of the theorem for C1.\<close>

theorem renewSubscription_initialize_failure_witness:
  "walletPublicKey example_adapter = Some ''alice'' \<and>
   renewSubscription example_adapter ''provider'' ''r'' 5000 80 ''nft'' =
     ([Fetch ''qualityInfo'' ''prog/quality/provider'',
       Rpc (initializeQualityInfo_transition example_adapter ''provider'' ''alice''
              (getProgramAddresses example_adapter ''provider'' ''alice''))],
      Inl (throw_handleError
             (ErrorInstance (Some (CodeNumber 0)) ''account already in use'')))"
proof -
  have w: "walletPublicKey example_adapter = Some ''alice''"
    by (simp add: example_adapter_def)
  have q: "account_qualityInfo_fetch example_adapter
             (qualityPDA (getProgramAddresses example_adapter ''provider'' ''alice'')) =
           Inl (newError ''Account does not exist'')"
    by (simp add: example_adapter_def)
  have r: "rpc example_adapter (initializeQualityInfo_transition example_adapter ''provider''
             ''alice'' (getProgramAddresses example_adapter ''provider'' ''alice'')) =
           Inl (ErrorInstance (Some (CodeNumber 0)) ''account already in use'')"
    by (simp add: example_adapter_def initializeQualityInfo_transition_def)
  have p: "qualityPDA (getProgramAddresses example_adapter ''provider'' ''alice'') =
           ''prog/quality/provider''"
    by (simp add: example_defs)
  show ?thesis
    using w p renewSubscription_initialize_failure [where newRecipient = "''r''"
        and newEndTime = 5000 and qualityScore = 80 and nftTokenAccount = "''nft''",
        OF w refl refl q r]
    by simp
qed

subsection \<open>The order of the renewal protocol\<close>

lemma submitted_append: "submitted (xs @ ys) = submitted xs @ submitted ys"
  by (induction xs rule: submitted.induct) simp_all

lemma submitted_renew_after_quality:
  "submitted (fst (renew_after_quality a dataProvider newRecipient newEndTime qualityScore
      nftTokenAccount subscriber pdas sent)) =
   submitted sent @
     (if isl (account_state_fetch a (statePDA pdas)) \<or> isl (newBN newEndTime) then []
      else [''renewSubscription''])"
  by (simp add: renew_after_quality_def Let_def submitted_append
      renewSubscription_transition_def split: sum.splits)

text \<open>
  C4. With the wallet connected, \<^verbatim>\<open>renewSubscription\<close> submits its transitions in
  the order of the two-step protocol. When the fetch of the quality record fails, it
  submits exactly one initialisation, first, and the renewal after it if at all (and it
  does submit the renewal when the initialisation and the fetch of the state account
  succeed and the new end time is below \<open>2 ^ 53\<close> in magnitude). When the fetch
  succeeds it submits no initialisation. When the initialisation is rejected, the
  renewal is never submitted.
\<close>

theorem renewSubscription_protocol:
  assumes "walletPublicKey a = Some subscriber"
    and "pdas = getProgramAddresses a dataProvider subscriber"
    and "init = initializeQualityInfo_transition a dataProvider subscriber pdas"
    and "sent = submitted (fst (renewSubscription a dataProvider newRecipient newEndTime
           qualityScore nftTokenAccount))"
  shows "(isl (account_qualityInfo_fetch a (qualityPDA pdas)) \<longrightarrow>
            sent = [''initializeQualityInfo''] \<or>
            sent = [''initializeQualityInfo'', ''renewSubscription'']) \<and>
         (isl (account_qualityInfo_fetch a (qualityPDA pdas)) \<and> \<not> isl (rpc a init) \<and>
          \<not> isl (account_state_fetch a (statePDA pdas)) \<and> \<bar>newEndTime\<bar> < 2 ^ 53 \<longrightarrow>
            sent = [''initializeQualityInfo'', ''renewSubscription'']) \<and>
         (\<not> isl (account_qualityInfo_fetch a (qualityPDA pdas)) \<longrightarrow>
            sent = [] \<or> sent = [''renewSubscription'']) \<and>
         (isl (account_qualityInfo_fetch a (qualityPDA pdas)) \<and> isl (rpc a init) \<longrightarrow>
            sent = [''initializeQualityInfo''])"
  using assms
  by (auto simp add: renewSubscription_def Let_def submitted_renew_after_quality
      initializeQualityInfo_transition_def newBN_def split: sum.splits)

text \<open>
  The example deployment, with a client that accepts the initialisation: one
  initialisation, then the renewal.
\<close>

theorem renewSubscription_protocol_witness:
  "walletPublicKey (example_adapter\<lparr> rpc := (\<lambda>tx. Inr ''signature'') \<rparr>) = Some ''alice'' \<and>
   isl (account_qualityInfo_fetch (example_adapter\<lparr> rpc := (\<lambda>tx. Inr ''signature'') \<rparr>)
     ''prog/quality/provider'') \<and>
   submitted (fst (renewSubscription (example_adapter\<lparr> rpc := (\<lambda>tx. Inr ''signature'') \<rparr>)
     ''provider'' ''r'' 5000 80 ''nft'')) = [''initializeQualityInfo'', ''renewSubscription'']"
proof -
  let ?a = "example_adapter\<lparr> rpc := (\<lambda>tx. Inr ''signature'') \<rparr>"
  have w: "walletPublicKey ?a = Some ''alice''"
    by (simp add: example_adapter_def)
  have p: "qualityPDA (getProgramAddresses ?a ''provider'' ''alice'') = ''prog/quality/provider''"
      "statePDA (getProgramAddresses ?a ''provider'' ''alice'') = ''prog/storage''"
    by (simp_all add: example_defs)
  have q: "isl (account_qualityInfo_fetch ?a ''prog/quality/provider'')"
    by (simp add: example_adapter_def)
  have s: "\<not> isl (account_state_fetch ?a ''prog/storage'')"
    by (simp add: example_adapter_def)
  have r: "\<not> isl (rpc ?a t)" for t
    by simp
  have b: "\<bar>5000 :: int\<bar> < 2 ^ 53"
    by simp
  show ?thesis
    using w q s r p b renewSubscription_protocol [where newRecipient = "''r''" and newEndTime = 5000
        and qualityScore = 80 and nftTokenAccount = "''nft''", OF w refl refl refl]
    by simp
qed

text \<open>
  With a new end time of \<open>2 ^ 53\<close> the conversion to a \<^verbatim>\<open>BN\<close> throws after the state
  account has been fetched, and the renewal is not submitted.
\<close>

lemma renewSubscription_unsafe_end_time:
  "renewSubscription (example_adapter\<lparr> rpc := (\<lambda>tx. Inr ''signature'') \<rparr>)
     ''provider'' ''r'' 9007199254740992 80 ''nft'' =
   ([Fetch ''qualityInfo'' ''prog/quality/provider'',
     Rpc (Transition ''initializeQualityInfo'' []
       [(''qualityInfo'', ''prog/quality/provider''), (''dataProvider'', ''provider''),
        (''payer'', ''alice''), (''systemProgram'', ''system'')]),
     Fetch ''state'' ''prog/storage''],
    Inl (newError ''Assertion failed''))"
  by (simp add: renewSubscription_def renew_after_quality_def example_defs newBN_def
      throw_handleError_def initializeQualityInfo_transition_def newError_def)

subsection \<open>Counting active subscriptions\<close>

lemma activeCount_loop_readings:
  "activeCount_loop a agentAddress subs k n =
   n + length (filter (\<lambda>(j, sub). endTime sub > unixNow (dateNow a j))
         (enumerate k (List.map_filter (\<lambda>s.
            case account_subscription_fetch a
                   (findProgramAddressSync a [''subscription'', s, agentAddress] (programId a)) of
              Inl error \<Rightarrow> None
            | Inr sub \<Rightarrow> Some sub) subs)))"
  by (induction subs arbitrary: k n)
    (simp_all add: Let_def map_filter_simps split: sum.splits)

lemma activeCount_loop_constant_clock:
  assumes "\<forall>k. unixNow (dateNow a k) = now"
  shows "activeCount_loop a agentAddress subs k n =
         n + length (filter (\<lambda>s.
           case account_subscription_fetch a
                  (findProgramAddressSync a [''subscription'', s, agentAddress] (programId a)) of
             Inl error \<Rightarrow> False
           | Inr sub \<Rightarrow> endTime sub > now) subs)"
  using assms
  by (induction subs arbitrary: k n) (simp_all add: Let_def split: sum.splits)

text \<open>
  C5, as the code has it. For every subscribers list,
  \<^verbatim>\<open>getActiveSubscriptionsForAgent\<close> returns the number of subscribers in it whose
  subscription record is fetched successfully and has an end time strictly greater than
  the clock's Unix seconds read right after that fetch: the \<open>j\<close>-th fetched record is
  compared with the \<open>j\<close>-th reading. A subscriber whose fetch fails is skipped and the
  operation still returns a count. When every reading gives the same second \<open>now\<close>,
  the count is the number of subscribers whose fetch succeeds and whose end time is
  strictly greater than \<open>now\<close>.
\<close>

theorem getActiveSubscriptionsForAgent_counts:
  assumes "getAgentSubscribers a agentAddress = Inr subs"
  shows "getActiveSubscriptionsForAgent a agentAddress =
           Inr (length (filter (\<lambda>(j, sub). endTime sub > unixNow (dateNow a j))
             (enumerate 0 (List.map_filter (\<lambda>s.
                case account_subscription_fetch a
                       (findProgramAddressSync a [''subscription'', s, agentAddress]
                          (programId a)) of
                  Inl error \<Rightarrow> None
                | Inr sub \<Rightarrow> Some sub) subs)))) \<and>
         ((\<forall>k. unixNow (dateNow a k) = now) \<longrightarrow>
            getActiveSubscriptionsForAgent a agentAddress =
              Inr (length (filter (\<lambda>s.
                case account_subscription_fetch a
                       (findProgramAddressSync a [''subscription'', s, agentAddress]
                          (programId a)) of
                  Inl error \<Rightarrow> False
                | Inr sub \<Rightarrow> endTime sub > now) subs)))"
  using assms activeCount_loop_readings [of a agentAddress subs 0 0]
    activeCount_loop_constant_clock [of a now agentAddress subs 0 0]
  by (simp add: getActiveSubscriptionsForAgent_def)

text \<open>
  C5 as stated fails: when the clock advances from second 1000 to second 2000 between
  two fetches and both fetched subscriptions end at second 1500, the operation returns
  1, while for every single \<open>now\<close> the number of fetched subscriptions ending after
  \<open>now\<close> is 2 or 0.
\<close>

theorem getActiveSubscriptionsForAgent_advancing_clock_counterexample:
  "getAgentSubscribers advancing_adapter ''provider'' = Inr [''alice'', ''bob'', ''dave''] \<and>
   getActiveSubscriptionsForAgent advancing_adapter ''provider'' = Inr 1 \<and>
   (\<forall>now. length (filter (\<lambda>s.
       case account_subscription_fetch advancing_adapter
              (findProgramAddressSync advancing_adapter [''subscription'', s, ''provider'']
                 (programId advancing_adapter)) of
         Inl error \<Rightarrow> False
       | Inr sub \<Rightarrow> endTime sub > now) [''alice'', ''bob'', ''dave'']) \<noteq> 1)"
  by (simp add: getActiveSubscriptionsForAgent_def getAgentSubscribers_def advancing_adapter_def
      example_defs unixNow_def)

text \<open>
  Three subscribers, the fetch for \<open>bob\<close> fails: the count is that of the other two.
\<close>

theorem getActiveSubscriptionsForAgent_counts_witness:
  "(\<forall>k. unixNow (dateNow example_adapter k) = 1000) \<and>
   getAgentSubscribers example_adapter ''provider'' = Inr [''alice'', ''bob'', ''dave''] \<and>
   isl (account_subscription_fetch example_adapter ''prog/subscription/bob/provider'') \<and>
   getActiveSubscriptionsForAgent example_adapter ''provider'' = Inr 2"
proof -
  have c: "\<forall>k. unixNow (dateNow example_adapter k) = 1000"
    by (simp add: example_adapter_def unixNow_def)
  have l: "getAgentSubscribers example_adapter ''provider'' = Inr [''alice'', ''bob'', ''dave'']"
    by (simp add: getAgentSubscribers_def example_defs)
  have b: "isl (account_subscription_fetch example_adapter ''prog/subscription/bob/provider'')"
    by (simp add: example_adapter_def)
  have "getActiveSubscriptionsForAgent example_adapter ''provider'' = Inr 2"
    using c getActiveSubscriptionsForAgent_counts [OF l, of 1000]
    by (simp add: example_defs)
  with c l b show ?thesis by simp
qed

subsection \<open>Listing subscribers\<close>

text \<open>
  C6. \<^verbatim>\<open>getAgentSubscribers\<close> returns the empty list, not an error, when the fetch of
  the provider's subscribers-list account fails, and the account's member list when the
  fetch succeeds.
\<close>

theorem getAgentSubscribers_missing_list:
  "(account_subscribersList_fetch a
      (findProgramAddressSync a [''subscribers'', agentAddress] (programId a)) = Inl e \<longrightarrow>
      getAgentSubscribers a agentAddress = Inr []) \<and>
   (account_subscribersList_fetch a
      (findProgramAddressSync a [''subscribers'', agentAddress] (programId a)) = Inr l \<longrightarrow>
      getAgentSubscribers a agentAddress = Inr (subscribers l))"
  by (simp add: getAgentSubscribers_def)

text \<open>A provider without a subscribers list, and one with a list.\<close>

theorem getAgentSubscribers_missing_list_witness:
  "account_subscribersList_fetch example_adapter ''prog/subscribers/nobody'' =
     Inl (newError ''Account does not exist'') \<and>
   getAgentSubscribers example_adapter ''nobody'' = Inr [] \<and>
   account_subscribersList_fetch example_adapter ''prog/subscribers/provider'' =
     Inr \<lparr> subscribers = [''alice'', ''bob'', ''dave''] \<rparr> \<and>
   getAgentSubscribers example_adapter ''provider'' = Inr [''alice'', ''bob'', ''dave'']"
proof -
  have n: "account_subscribersList_fetch example_adapter ''prog/subscribers/nobody'' =
             Inl (newError ''Account does not exist'')"
    and p: "account_subscribersList_fetch example_adapter ''prog/subscribers/provider'' =
             Inr \<lparr> subscribers = [''alice'', ''bob'', ''dave''] \<rparr>"
    by (simp_all add: example_adapter_def)
  have d: "findProgramAddressSync example_adapter [''subscribers'', ''nobody'']
             (programId example_adapter) = ''prog/subscribers/nobody''"
      "findProgramAddressSync example_adapter [''subscribers'', ''provider'']
             (programId example_adapter) = ''prog/subscribers/provider''"
    by (simp_all add: example_defs)
  show ?thesis
    using n p d
      getAgentSubscribers_missing_list [of example_adapter "''nobody''"
        "newError ''Account does not exist''"]
      getAgentSubscribers_missing_list [of example_adapter "''provider''" _
        "\<lparr> subscribers = [''alice'', ''bob'', ''dave''] \<rparr>"]
    by simp
qed

subsection \<open>Address derivation\<close>

text \<open>
  C7. \<^verbatim>\<open>getProgramAddresses\<close> gives equal results on equal inputs. The state
  address is derived from the program identifier and the tag "storage" alone, so it is
  the same for all pairs; the subscription address from the tag "subscription", the
  subscriber and the provider; the quality and subscribers-list addresses from their
  tags and the provider.
\<close>

theorem getProgramAddresses_deterministic:
  "(dataProvider = dataProvider' \<and> subscriber = subscriber' \<longrightarrow>
      getProgramAddresses a dataProvider subscriber =
      getProgramAddresses a dataProvider' subscriber') \<and>
   statePDA (getProgramAddresses a dataProvider subscriber) =
     findProgramAddressSync a [''storage''] (programId a) \<and>
   statePDA (getProgramAddresses a dataProvider subscriber) =
     statePDA (getProgramAddresses a dataProvider' subscriber') \<and>
   subscriptionPDA (getProgramAddresses a dataProvider subscriber) =
     findProgramAddressSync a [''subscription'', subscriber, dataProvider] (programId a) \<and>
   qualityPDA (getProgramAddresses a dataProvider subscriber) =
     findProgramAddressSync a [''quality'', dataProvider] (programId a) \<and>
   subscribersListPDA (getProgramAddresses a dataProvider subscriber) =
     findProgramAddressSync a [''subscribers'', dataProvider] (programId a)"
  by (simp add: getProgramAddresses_def)

text \<open>The four addresses of one pair, and the state address of another pair.\<close>

theorem getProgramAddresses_deterministic_witness:
  "getProgramAddresses example_adapter ''provider'' ''alice'' =
     \<lparr> statePDA = ''prog/storage'', qualityPDA = ''prog/quality/provider'',
       subscriptionPDA = ''prog/subscription/alice/provider'',
       subscribersListPDA = ''prog/subscribers/provider'' \<rparr> \<and>
   statePDA (getProgramAddresses example_adapter ''provider'' ''alice'') =
     statePDA (getProgramAddresses example_adapter ''other'' ''bob'')"
  using getProgramAddresses_deterministic [of "''provider''" "''other''" "''alice''" "''bob''"
      example_adapter]
    getProgramAddresses_deterministic [of "''provider''" "''provider''" "''alice''" "''alice''"
      example_adapter]
  by (simp add: example_defs)

subsection \<open>Listing all subscriptions\<close>

text \<open>
  C9. The result of \<^verbatim>\<open>getAllSubscriptionsForUser\<close> does not depend on the user key:
  on the same adapter (the same subscription accounts and clock) any two keys give the
  same result.
\<close>

theorem getAllSubscriptionsForUser_ignores_user:
  "getAllSubscriptionsForUser a userPublicKey = getAllSubscriptionsForUser a userPublicKey'"
  by (simp add: getAllSubscriptionsForUser_def)

subsection \<open>Creating a subscription\<close>




subsection \<open>The statuses of listed subscriptions\<close>






end
